theory Spec2Isabelle
  imports Main
begin

section \<open>The cache-first strategy of workbox-runtime-caching\<close>

text \<open>
  This theory embeds \<^verbatim>\<open>packages/workbox-runtime-caching/CacheFirst.mjs\<close>: the class
  \<^verbatim>\<open>CacheFirst\<close> with its constructor and its two asynchronous methods \<^verbatim>\<open>handle\<close> and
  \<^verbatim>\<open>_getFromNetwork\<close> (written \<open>getFromNetwork\<close> below, since an identifier cannot start
  with an underscore; the fields \<^verbatim>\<open>_cacheName\<close> and \<^verbatim>\<open>_plugins\<close> are \<open>inst_cacheName\<close>
  and \<open>inst_plugins\<close>).

  An asynchronous method is modelled as a function from the world before the call to the
  way its promise settles and the world after it. Every call the class makes to a
  collaborator (\<^verbatim>\<open>cacheNames\<close>, \<^verbatim>\<open>cacheWrapper\<close>, \<^verbatim>\<open>fetchWrapper\<close>, \<^verbatim>\<open>Response.clone\<close>,
  \<^verbatim>\<open>event.waitUntil\<close>) is appended, with its arguments, to the call log of the world.
  The blocks guarded by \<^verbatim>\<open>process.env.NODE_ENV !== 'production'\<close> only assert the type of
  the event (a typed \<open>fetch_event\<close> here) and write to the console; they assign neither
  \<^verbatim>\<open>response\<close> nor \<^verbatim>\<open>error\<close> and are left out.
\<close>

subsection \<open>JavaScript values and settled promises\<close>

text \<open>
  The values a JavaScript \<^verbatim>\<open>throw\<close> can carry, as far as their truthiness goes: the
  source tests the caught value with \<^verbatim>\<open>if (error)\<close>. An \<^verbatim>\<open>Error\<close> object is \<open>JSError\<close>
  with its message.
\<close>

datatype js_value =
    JSUndefined
  | JSNull
  | JSBoolean bool
  | JSNumber int
  | JSString string
  | JSError string

fun ToBoolean :: "js_value \<Rightarrow> bool" where
  "ToBoolean JSUndefined = False"
| "ToBoolean JSNull = False"
| "ToBoolean (JSBoolean b) = b"
| "ToBoolean (JSNumber n) = (n \<noteq> 0)"
| "ToBoolean (JSString s) = (s \<noteq> [])"
| "ToBoolean (JSError m) = True"

text \<open>How an awaited promise settles: with a value, or rejected with a thrown value.\<close>

datatype 'a settled = Fulfilled 'a | Rejected js_value

subsection \<open>Response objects, promises and the call log\<close>

record payload =
  status :: nat
  body :: string

text \<open>
  A \<^verbatim>\<open>Response\<close> is an object with an identity and a body that can be read once. The
  heap is the list of the objects allocated so far; a reference is an index into it.
\<close>

record response_obj =
  content :: payload
  bodyUsed :: bool

type_synonym response_ref = nat

datatype promise_state = Pending | Settled "unit settled"

datatype ('req, 'plugin) call =
    GetRuntimeNameCall "string option"
  | MatchCall string 'req js_value "'plugin list"
  | FetchCall 'req js_value "'plugin list"
  | CloneCall response_ref
  | PutCall string 'req response_ref "'plugin list" nat
  | WaitUntilCall nat

record ('req, 'plugin) world =
  calls :: "('req, 'plugin) call list"
  heap :: "response_obj list"
  promises :: "promise_state list"
  extendLifetime :: "nat list"

definition record_call ::
  "('req, 'plugin) call \<Rightarrow> ('req, 'plugin) world \<Rightarrow> ('req, 'plugin) world" where
  "record_call c w = w\<lparr>calls := calls w @ [c]\<rparr>"

definition new_Response ::
  "payload \<Rightarrow> ('req, 'plugin) world \<Rightarrow> response_ref \<times> ('req, 'plugin) world" where
  "new_Response p w =
     (length (heap w), w\<lparr>heap := heap w @ [\<lparr>content = p, bodyUsed = False\<rparr>]\<rparr>)"

subsection \<open>The collaborators\<close>

text \<open>
  What the surroundings answer: the name \<^verbatim>\<open>cacheNames.getRuntimeName\<close> returns, how
  the promises of \<^verbatim>\<open>cacheWrapper.match\<close> and \<^verbatim>\<open>fetchWrapper.fetch\<close> settle for given
  arguments, and how the write started by \<^verbatim>\<open>cacheWrapper.put\<close> ends (\<open>None\<close> when it
  never does). They are parameters of the model.
\<close>

record ('req, 'plugin) env =
  runtimeName :: "string option \<Rightarrow> string"
  match_outcome :: "string \<Rightarrow> 'req \<Rightarrow> js_value \<Rightarrow> 'plugin list \<Rightarrow> payload option settled"
  fetch_outcome :: "'req \<Rightarrow> js_value \<Rightarrow> 'plugin list \<Rightarrow> payload settled"
  put_outcome :: "string \<Rightarrow> 'req \<Rightarrow> 'plugin list \<Rightarrow> unit settled option"

text \<open>
  Modelled from the spec: \<^verbatim>\<open>cacheNames.getRuntimeName\<close> of workbox-core, the pure
  function \<^verbatim>\<open>resolveStoreName(optionalName) -> canonicalName\<close>.
\<close>

definition cacheNames_getRuntimeName ::
  "('req, 'plugin) env \<Rightarrow> string option \<Rightarrow> ('req, 'plugin) world
     \<Rightarrow> string \<times> ('req, 'plugin) world" where
  "cacheNames_getRuntimeName env name w =
     (runtimeName env name, record_call (GetRuntimeNameCall name) w)"

text \<open>
  Modelled from the spec: \<^verbatim>\<open>cacheWrapper.match\<close> of workbox-core,
  \<^verbatim>\<open>match(storeId, request, options, plugins) -> Response | absent\<close>, which may also
  fail. A stored entry is handed out as a new \<^verbatim>\<open>Response\<close> object with an unread body.
\<close>

definition cacheWrapper_match ::
  "('req, 'plugin) env \<Rightarrow> string \<Rightarrow> 'req \<Rightarrow> js_value \<Rightarrow> 'plugin list
     \<Rightarrow> ('req, 'plugin) world \<Rightarrow> response_ref option settled \<times> ('req, 'plugin) world" where
  "cacheWrapper_match env cacheName request matchOptions plugins w =
     (let w1 = record_call (MatchCall cacheName request matchOptions plugins) w in
      case match_outcome env cacheName request matchOptions plugins of
        Rejected e \<Rightarrow> (Rejected e, w1)
      | Fulfilled None \<Rightarrow> (Fulfilled None, w1)
      | Fulfilled (Some p) \<Rightarrow>
          (let (r, w2) = new_Response p w1 in (Fulfilled (Some r), w2)))"

text \<open>
  Modelled from the spec: \<^verbatim>\<open>fetchWrapper.fetch\<close> of workbox-core,
  \<^verbatim>\<open>fetch(request, options, plugins) -> Response\<close>, failing with the transport's error.
  A fetched response is a new \<^verbatim>\<open>Response\<close> object with an unread body.
\<close>

definition fetchWrapper_fetch ::
  "('req, 'plugin) env \<Rightarrow> 'req \<Rightarrow> js_value \<Rightarrow> 'plugin list
     \<Rightarrow> ('req, 'plugin) world \<Rightarrow> response_ref settled \<times> ('req, 'plugin) world" where
  "fetchWrapper_fetch env request fetchOptions plugins w =
     (let w1 = record_call (FetchCall request fetchOptions plugins) w in
      case fetch_outcome env request fetchOptions plugins of
        Rejected e \<Rightarrow> (Rejected e, w1)
      | Fulfilled p \<Rightarrow> (let (r, w2) = new_Response p w1 in (Fulfilled r, w2)))"

text \<open>
  Modelled from the spec: \<^verbatim>\<open>cacheWrapper.put\<close> of workbox-core,
  \<^verbatim>\<open>put(storeId, request, response, plugins) -> void\<close>, asynchronous. The call returns a
  promise that is still pending; the write itself happens later, outside the strategy.
\<close>

definition cacheWrapper_put ::
  "string \<Rightarrow> 'req \<Rightarrow> response_ref \<Rightarrow> 'plugin list \<Rightarrow> ('req, 'plugin) world
     \<Rightarrow> nat \<times> ('req, 'plugin) world" where
  "cacheWrapper_put cacheName request response plugins w =
     (let p = length (promises w) in
      (p, (record_call (PutCall cacheName request response plugins p) w)
            \<lparr>promises := promises w @ [Pending]\<rparr>))"

text \<open>
  Modelled from the spec: the completion of a write, "asynchronous, failure surfaces only
  to its own caller". It is a step of the surroundings, taken after the call of
  \<^verbatim>\<open>cacheWrapper.put\<close> has returned, if at all: only then does the promise of the put
  leave the pending state.
\<close>

fun complete_put ::
  "('req, 'plugin) env \<Rightarrow> ('req, 'plugin) call \<Rightarrow> ('req, 'plugin) world
     \<Rightarrow> ('req, 'plugin) world" where
  "complete_put env (PutCall cacheName request response plugins p) w =
     (case put_outcome env cacheName request plugins of
        None \<Rightarrow> w
      | Some outcome \<Rightarrow> w\<lparr>promises := (promises w)[p := Settled outcome]\<rparr>)"
| "complete_put env c w = w"

text \<open>
  Modelled from the spec: the duplication of a response (\<^verbatim>\<open>Response.clone\<close> of the
  platform), "split into independent readable copies, with fully independent read
  cursors", to be done before any consumption: cloning a response whose body was read
  throws a \<^verbatim>\<open>TypeError\<close>.
\<close>

definition Response_clone ::
  "response_ref \<Rightarrow> ('req, 'plugin) world
     \<Rightarrow> (js_value + response_ref) \<times> ('req, 'plugin) world" where
  "Response_clone r w =
     (let w1 = record_call (CloneCall r) w in
      if r < length (heap w1) \<and> \<not> bodyUsed (heap w1 ! r)
      then (Inr (length (heap w1)),
            w1\<lparr>heap := heap w1 @ [\<lparr>content = content (heap w1 ! r), bodyUsed = False\<rparr>]\<rparr>)
      else (Inl (JSError ''TypeError''), w1))"

text \<open>
  Modelled from the spec: reading the body of a response to completion (the platform's
  \<^verbatim>\<open>Response.text\<close>). The body is a single-consumption stream: the read marks this
  object, and only this object, as used; a second read of the same object fails.
\<close>

definition readable :: "response_obj list \<Rightarrow> response_ref \<Rightarrow> bool" where
  "readable h r = (r < length h \<and> \<not> bodyUsed (h ! r))"

definition Response_text ::
  "response_ref \<Rightarrow> response_obj list \<Rightarrow> (js_value + string) \<times> response_obj list" where
  "Response_text r h =
     (if readable h r
      then (Inr (body (content (h ! r))), h[r := (h ! r)\<lparr>bodyUsed := True\<rparr>])
      else (Inl (JSError ''TypeError''), h))"

text \<open>
  Modelled from the spec: the lifetime-extension mechanism (\<^verbatim>\<open>event.waitUntil\<close> of the
  platform), "a registration call accepting a pending background operation".
\<close>

definition event_waitUntil ::
  "nat \<Rightarrow> ('req, 'plugin) world \<Rightarrow> ('req, 'plugin) world" where
  "event_waitUntil p w =
     (record_call (WaitUntilCall p) w)\<lparr>extendLifetime := extendLifetime w @ [p]\<rparr>"

subsection \<open>The class CacheFirst\<close>

record 'plugin options =
  cacheName :: "string option"
  plugins :: "'plugin list option"

record 'plugin cache_first =
  inst_cacheName :: string
  inst_plugins :: "'plugin list"

record 'req fetch_event =
  request :: 'req

text \<open>
  \<^verbatim>\<open>constructor(options = {})\<close>: an absent argument is the empty object, an absent
  \<^verbatim>\<open>options.plugins\<close> is replaced by \<^verbatim>\<open>[]\<close> (an array, even an empty one, is truthy).
\<close>

definition CacheFirst_constructor ::
  "('req, 'plugin) env \<Rightarrow> 'plugin options option \<Rightarrow> ('req, 'plugin) world
     \<Rightarrow> 'plugin cache_first \<times> ('req, 'plugin) world" where
  "CacheFirst_constructor env options_arg w =
     (let opts = (case options_arg of
                    None \<Rightarrow> \<lparr>cacheName = None, plugins = None\<rparr>
                  | Some given \<Rightarrow> given);
          (name, w1) = cacheNames_getRuntimeName env (cacheName opts) w
      in (\<lparr>inst_cacheName = name,
           inst_plugins = (case plugins opts of None \<Rightarrow> [] | Some ps \<Rightarrow> ps)\<rparr>, w1))"

text \<open>
  \<^verbatim>\<open>_getFromNetwork(event)\<close>: await the fetch (a rejection leaves the method at once),
  clone the response, hand the clone to \<^verbatim>\<open>cacheWrapper.put\<close>, register the promise of
  the put with \<^verbatim>\<open>event.waitUntil\<close> without awaiting it, return the fetched response.
\<close>

definition getFromNetwork ::
  "('req, 'plugin) env \<Rightarrow> 'plugin cache_first \<Rightarrow> 'req fetch_event \<Rightarrow> ('req, 'plugin) world
     \<Rightarrow> response_ref settled \<times> ('req, 'plugin) world" where
  "getFromNetwork env this event w =
     (case fetchWrapper_fetch env (request event) JSNull (inst_plugins this) w of
        (Rejected e, w1) \<Rightarrow> (Rejected e, w1)
      | (Fulfilled response, w1) \<Rightarrow>
          (case Response_clone response w1 of
             (Inl e, w2) \<Rightarrow> (Rejected e, w2)
           | (Inr responseClone, w2) \<Rightarrow>
               (let (p, w3) = cacheWrapper_put (inst_cacheName this) (request event)
                                responseClone (inst_plugins this) w2;
                    w4 = event_waitUntil p w3
                in (Fulfilled response, w4))))"

text \<open>
  \<^verbatim>\<open>handle({event})\<close>. The awaited match is outside the \<^verbatim>\<open>try\<close>: its rejection rejects
  \<open>handle\<close>. On a miss (\<^verbatim>\<open>!response\<close>) the network path runs inside \<^verbatim>\<open>try\<close>; what it
  throws is kept in \<^verbatim>\<open>error\<close> (initially \<^verbatim>\<open>undefined\<close>). At the end \<^verbatim>\<open>if (error)\<close>
  rethrows a truthy \<^verbatim>\<open>error\<close>; otherwise \<^verbatim>\<open>response\<close> is returned, \<open>None\<close> standing for
  the absent value it still holds after a miss without a fetched response. The instance
  is returned with the result, as the method could have assigned its fields.
\<close>

definition handle ::
  "('req, 'plugin) env \<Rightarrow> 'plugin cache_first \<Rightarrow> 'req fetch_event \<Rightarrow> ('req, 'plugin) world
     \<Rightarrow> response_ref option settled \<times> 'plugin cache_first \<times> ('req, 'plugin) world" where
  "handle env this event w =
     (case cacheWrapper_match env (inst_cacheName this) (request event) JSNull
             (inst_plugins this) w of
        (Rejected e, w1) \<Rightarrow> (Rejected e, this, w1)
      | (Fulfilled matched, w1) \<Rightarrow>
          (let (response, error, w2) =
                 (case matched of
                    None \<Rightarrow>
                      (case getFromNetwork env this event w1 of
                         (Fulfilled r, w') \<Rightarrow> (Some r, JSUndefined, w')
                       | (Rejected err, w') \<Rightarrow> (None, err, w'))
                  | Some r \<Rightarrow> (Some r, JSUndefined, w1))
           in if ToBoolean error then (Rejected error, this, w2)
              else (Fulfilled response, this, w2)))"

subsection \<open>Reading the call log\<close>

definition calls_since ::
  "('req, 'plugin) world \<Rightarrow> ('req, 'plugin) world \<Rightarrow> ('req, 'plugin) call list" where
  "calls_since w w' = drop (length (calls w)) (calls w')"

fun is_getRuntimeName :: "('req, 'plugin) call \<Rightarrow> bool" where
  "is_getRuntimeName (GetRuntimeNameCall n) = True"
| "is_getRuntimeName c = False"

fun is_fetch :: "('req, 'plugin) call \<Rightarrow> bool" where
  "is_fetch (FetchCall rq opts ps) = True"
| "is_fetch c = False"

fun is_clone :: "('req, 'plugin) call \<Rightarrow> bool" where
  "is_clone (CloneCall r) = True"
| "is_clone c = False"

fun is_put :: "('req, 'plugin) call \<Rightarrow> bool" where
  "is_put (PutCall n rq r ps p) = True"
| "is_put c = False"

fun call_plugins :: "('req, 'plugin) call \<Rightarrow> 'plugin list option" where
  "call_plugins (MatchCall n rq opts ps) = Some ps"
| "call_plugins (FetchCall rq opts ps) = Some ps"
| "call_plugins (PutCall n rq r ps p) = Some ps"
| "call_plugins c = None"

fun call_cacheName :: "('req, 'plugin) call \<Rightarrow> string option" where
  "call_cacheName (MatchCall n rq opts ps) = Some n"
| "call_cacheName (PutCall n rq r ps p) = Some n"
| "call_cacheName c = None"

text \<open>Handling a list of events one after the other with the same instance.\<close>

fun handle_all ::
  "('req, 'plugin) env \<Rightarrow> 'plugin cache_first \<Rightarrow> 'req fetch_event list
     \<Rightarrow> ('req, 'plugin) world \<Rightarrow> 'plugin cache_first \<times> ('req, 'plugin) world" where
  "handle_all env this [] w = (this, w)"
| "handle_all env this (event # events) w =
     (case handle env this event w of (res, this', w') \<Rightarrow> handle_all env this' events w')"

text \<open>The three components of what \<open>handle\<close> gives back, and the calls it made.\<close>

definition handle_result ::
  "('req, 'plugin) env \<Rightarrow> 'plugin cache_first \<Rightarrow> 'req fetch_event \<Rightarrow> ('req, 'plugin) world
     \<Rightarrow> response_ref option settled" where
  "handle_result env this event w = fst (handle env this event w)"

definition handle_instance ::
  "('req, 'plugin) env \<Rightarrow> 'plugin cache_first \<Rightarrow> 'req fetch_event \<Rightarrow> ('req, 'plugin) world
     \<Rightarrow> 'plugin cache_first" where
  "handle_instance env this event w = fst (snd (handle env this event w))"

definition handle_world ::
  "('req, 'plugin) env \<Rightarrow> 'plugin cache_first \<Rightarrow> 'req fetch_event \<Rightarrow> ('req, 'plugin) world
     \<Rightarrow> ('req, 'plugin) world" where
  "handle_world env this event w = snd (snd (handle env this event w))"

definition handle_calls ::
  "('req, 'plugin) env \<Rightarrow> 'plugin cache_first \<Rightarrow> 'req fetch_event \<Rightarrow> ('req, 'plugin) world
     \<Rightarrow> ('req, 'plugin) call list" where
  "handle_calls env this event w = calls_since w (handle_world env this event w)"

subsection \<open>A concrete environment\<close>

text \<open>
  Requests are URLs and plugins are named. The store holds one stylesheet and fails on
  one URL; the network serves one document, rejects one URL with \<^verbatim>\<open>undefined\<close> (as
  \<^verbatim>\<open>Promise.reject()\<close> does) and is offline for the rest; the write of the document
  fails in the end, any other write never completes.
\<close>

definition example_env :: "(string, string) env" where
  "example_env =
     \<lparr>runtimeName = (\<lambda>name. case name of None \<Rightarrow> ''workbox-runtime'' | Some n \<Rightarrow> n),
      match_outcome = (\<lambda>cacheName url matchOptions plugins.
         if url = ''/styles/app.a1b2.css'' then Fulfilled (Some \<lparr>status = 200, body = ''a{}''\<rparr>)
         else if url = ''/broken-store'' then Rejected (JSError ''InvalidStateError'')
         else Fulfilled None),
      fetch_outcome = (\<lambda>url fetchOptions plugins.
         if url = ''/data.json'' then Fulfilled \<lparr>status = 200, body = ''[1]''\<rparr>
         else if url = ''/rejects-with-undefined'' then Rejected JSUndefined
         else Rejected (JSError ''Failed to fetch'')),
      put_outcome = (\<lambda>cacheName url plugins.
         if url = ''/data.json'' then Some (Rejected (JSError ''QuotaExceededError''))
         else None)\<rparr>"

definition example_instance :: "string cache_first" where
  "example_instance =
     \<lparr>inst_cacheName = ''workbox-runtime'', inst_plugins = [''expiration'', ''broadcast'']\<rparr>"

definition example_event :: "string \<Rightarrow> string fetch_event" where
  "example_event url = \<lparr>request = url\<rparr>"

definition empty_world :: "(string, string) world" where
  "empty_world = \<lparr>calls = [], heap = [], promises = [], extendLifetime = []\<rparr>"

text \<open>An instance built by the constructor from a store name and two plugins.\<close>

definition constructed_instance :: "string cache_first" where
  "constructed_instance =
     fst (CacheFirst_constructor example_env
            (Some \<lparr>cacheName = Some ''assets'', plugins = Some [''expiration'', ''broadcast'']\<rparr>)
            empty_world)"

section \<open>The four paths through handle\<close>

lemmas collaborator_defs =
  cacheNames_getRuntimeName_def cacheWrapper_match_def fetchWrapper_fetch_def
  cacheWrapper_put_def Response_clone_def event_waitUntil_def record_call_def
  new_Response_def

lemmas handle_projections =
  handle_result_def handle_instance_def handle_world_def handle_calls_def calls_since_def

lemmas example_defs =
  example_env_def example_instance_def example_event_def empty_world_def

text \<open>The store lookup fails: nothing but the match was called.\<close>

lemma handle_match_rejected:
  assumes "match_outcome env (inst_cacheName this) (request event) JSNull (inst_plugins this)
             = Rejected e"
  shows "handle env this event w =
           (Rejected e, this,
            w\<lparr>calls := calls w @
                 [MatchCall (inst_cacheName this) (request event) JSNull (inst_plugins this)]\<rparr>)"
  using assms by (simp add: handle_def collaborator_defs)

text \<open>The store has an entry: a new response object for it, and no further call.\<close>

lemma handle_hit:
  assumes "match_outcome env (inst_cacheName this) (request event) JSNull (inst_plugins this)
             = Fulfilled (Some p)"
  shows "handle env this event w =
           (Fulfilled (Some (length (heap w))), this,
            w\<lparr>calls := calls w @
                 [MatchCall (inst_cacheName this) (request event) JSNull (inst_plugins this)],
              heap := heap w @ [\<lparr>content = p, bodyUsed = False\<rparr>]\<rparr>)"
  using assms by (simp add: handle_def collaborator_defs)

text \<open>
  A miss and a rejected fetch: the caught value is rethrown when it is truthy, and
  otherwise the still absent \<^verbatim>\<open>response\<close> is returned.
\<close>

lemma handle_miss_fetch_rejected:
  assumes "match_outcome env (inst_cacheName this) (request event) JSNull (inst_plugins this)
             = Fulfilled None"
      and "fetch_outcome env (request event) JSNull (inst_plugins this) = Rejected e"
  shows "handle env this event w =
           (if ToBoolean e then Rejected e else Fulfilled None, this,
            w\<lparr>calls := calls w @
                 [MatchCall (inst_cacheName this) (request event) JSNull (inst_plugins this),
                  FetchCall (request event) JSNull (inst_plugins this)]\<rparr>)"
  using assms by (simp add: handle_def getFromNetwork_def collaborator_defs)

text \<open>A miss and a fetched response: five calls, two new objects, one pending promise.\<close>

lemma handle_miss_fetch_fulfilled:
  assumes "match_outcome env (inst_cacheName this) (request event) JSNull (inst_plugins this)
             = Fulfilled None"
      and "fetch_outcome env (request event) JSNull (inst_plugins this) = Fulfilled p"
  shows "handle env this event w =
           (Fulfilled (Some (length (heap w))), this,
            w\<lparr>calls := calls w @
                 [MatchCall (inst_cacheName this) (request event) JSNull (inst_plugins this),
                  FetchCall (request event) JSNull (inst_plugins this),
                  CloneCall (length (heap w)),
                  PutCall (inst_cacheName this) (request event) (Suc (length (heap w)))
                    (inst_plugins this) (length (promises w)),
                  WaitUntilCall (length (promises w))],
              heap := heap w @
                 [\<lparr>content = p, bodyUsed = False\<rparr>, \<lparr>content = p, bodyUsed = False\<rparr>],
              promises := promises w @ [Pending],
              extendLifetime := extendLifetime w @ [length (promises w)]\<rparr>)"
  using assms by (simp add: handle_def getFromNetwork_def collaborator_defs nth_append Let_def)

text \<open>Whatever the collaborators answer, the calls of one \<open>handle\<close> are one of three lists.\<close>

lemma handle_calls_cases:
  obtains
    (match_only) "handle_calls env this event w =
        [MatchCall (inst_cacheName this) (request event) JSNull (inst_plugins this)]"
  | (fetch_failed) "handle_calls env this event w =
        [MatchCall (inst_cacheName this) (request event) JSNull (inst_plugins this),
         FetchCall (request event) JSNull (inst_plugins this)]"
  | (fetched) "handle_calls env this event w =
        [MatchCall (inst_cacheName this) (request event) JSNull (inst_plugins this),
         FetchCall (request event) JSNull (inst_plugins this),
         CloneCall (length (heap w)),
         PutCall (inst_cacheName this) (request event) (Suc (length (heap w)))
           (inst_plugins this) (length (promises w)),
         WaitUntilCall (length (promises w))]"
proof (cases "match_outcome env (inst_cacheName this) (request event) JSNull (inst_plugins this)")
  case (Rejected e)
  then show ?thesis
    using match_only by (simp add: handle_projections handle_match_rejected)
next
  case (Fulfilled matched)
  show ?thesis
  proof (cases matched)
    case (Some p)
    with Fulfilled show ?thesis
      using match_only by (simp add: handle_projections handle_hit)
  next
    case None
    with Fulfilled have miss:
      "match_outcome env (inst_cacheName this) (request event) JSNull (inst_plugins this)
         = Fulfilled None" by simp
    show ?thesis
    proof (cases "fetch_outcome env (request event) JSNull (inst_plugins this)")
      case (Rejected e)
      then show ?thesis
        using fetch_failed by (simp add: handle_projections handle_miss_fetch_rejected [OF miss])
    next
      case (Fulfilled p)
      then show ?thesis
        using fetched by (simp add: handle_projections handle_miss_fetch_fulfilled [OF miss])
    qed
  qed
qed

lemma handle_keeps_instance: "handle_instance env this event w = this"
  by (auto simp: handle_instance_def handle_def Let_def
           split: prod.splits settled.splits option.splits)

text \<open>The log only grows: the world after \<open>handle\<close> holds the old calls, then the new ones.\<close>

lemma handle_world_calls:
  "calls (handle_world env this event w) = calls w @ handle_calls env this event w"
proof (cases "match_outcome env (inst_cacheName this) (request event) JSNull (inst_plugins this)")
  case (Rejected e)
  then show ?thesis
    by (simp add: handle_projections handle_match_rejected)
next
  case (Fulfilled matched)
  show ?thesis
  proof (cases matched)
    case (Some p)
    with Fulfilled show ?thesis
      by (simp add: handle_projections handle_hit)
  next
    case None
    with Fulfilled have miss:
      "match_outcome env (inst_cacheName this) (request event) JSNull (inst_plugins this)
         = Fulfilled None" by simp
    show ?thesis
    proof (cases "fetch_outcome env (request event) JSNull (inst_plugins this)")
      case (Rejected e)
      then show ?thesis
        by (simp add: handle_projections handle_miss_fetch_rejected [OF miss])
    next
      case (Fulfilled p)
      then show ?thesis
        by (simp add: handle_projections handle_miss_fetch_fulfilled [OF miss])
    qed
  qed
qed

lemma handle_calls_carry_instance:
  assumes "c \<in> set (handle_calls env this event w)"
  shows "(\<forall>n. call_cacheName c = Some n \<longrightarrow> n = inst_cacheName this)
       \<and> (\<forall>ps. call_plugins c = Some ps \<longrightarrow> ps = inst_plugins this)
       \<and> \<not> is_getRuntimeName c"
  using assms by (cases rule: handle_calls_cases [of env this event w]) auto

lemma handle_all_keeps_instance:
  "fst (handle_all env this events w) = this"
proof (induction events arbitrary: w)
  case Nil
  show ?case by simp
next
  case (Cons event events)
  obtain res this' w' where h: "handle env this event w = (res, this', w')"
    by (cases "handle env this event w") auto
  with handle_keeps_instance [of env this event w] have "this' = this"
    by (simp add: handle_instance_def)
  with h Cons.IH [of w'] show ?case by simp
qed

lemma handle_all_calls:
  "\<exists>cs. calls (snd (handle_all env this events w)) = calls w @ cs
       \<and> (\<forall>c \<in> set cs. (\<forall>n. call_cacheName c = Some n \<longrightarrow> n = inst_cacheName this)
                      \<and> (\<forall>ps. call_plugins c = Some ps \<longrightarrow> ps = inst_plugins this)
                      \<and> \<not> is_getRuntimeName c)"
proof (induction events arbitrary: w)
  case Nil
  show ?case by simp
next
  case (Cons event events)
  obtain res this' w' where h: "handle env this event w = (res, this', w')"
    by (cases "handle env this event w") auto
  with handle_keeps_instance [of env this event w] have same: "this' = this"
    by (simp add: handle_instance_def)
  from h have w': "w' = handle_world env this event w"
    by (simp add: handle_world_def)
  from Cons.IH [of w'] obtain cs where
    cs: "calls (snd (handle_all env this events w')) = calls w' @ cs"
        "\<forall>c \<in> set cs. (\<forall>n. call_cacheName c = Some n \<longrightarrow> n = inst_cacheName this)
                      \<and> (\<forall>ps. call_plugins c = Some ps \<longrightarrow> ps = inst_plugins this)
                      \<and> \<not> is_getRuntimeName c"
    by blast
  let ?hs = "handle_calls env this event w"
  have "calls (snd (handle_all env this (event # events) w)) = calls w @ (?hs @ cs)"
    using h same cs(1) w' handle_world_calls [of env this event w] by simp
  moreover have "\<forall>c \<in> set (?hs @ cs).
                        (\<forall>n. call_cacheName c = Some n \<longrightarrow> n = inst_cacheName this)
                      \<and> (\<forall>ps. call_plugins c = Some ps \<longrightarrow> ps = inst_plugins this)
                      \<and> \<not> is_getRuntimeName c"
    using cs(2) handle_calls_carry_instance [of _ env this event w] by auto
  ultimately show ?case by blast
qed

text \<open>
  What does hold when the fetch is rejected: a truthy value (every \<^verbatim>\<open>Error\<close> object is
  one) rejects \<open>handle\<close> unchanged, and in no case is a put made or registered.
\<close>

lemma truthy_fetch_rejection_propagates:
  assumes "match_outcome env (inst_cacheName this) (request event) JSNull (inst_plugins this)
             = Fulfilled None"
      and "fetch_outcome env (request event) JSNull (inst_plugins this) = Rejected e"
      and "ToBoolean e"
  shows "handle_result env this event w = Rejected e
       \<and> filter is_put (handle_calls env this event w) = []"
  using assms(3) by (simp add: handle_projections handle_miss_fetch_rejected [OF assms(1,2)])

lemma fetch_rejection_never_puts:
  assumes "match_outcome env (inst_cacheName this) (request event) JSNull (inst_plugins this)
             = Fulfilled None"
      and "fetch_outcome env (request event) JSNull (inst_plugins this) = Rejected e"
  shows "filter is_put (handle_calls env this event w) = []
       \<and> extendLifetime (handle_world env this event w) = extendLifetime w"
  by (simp add: handle_projections handle_miss_fetch_rejected [OF assms])

text \<open>Nothing in the strategy depends on how, or whether, a write ends.\<close>

lemma getFromNetwork_ignores_put_outcome:
  "getFromNetwork (env\<lparr>put_outcome := q\<rparr>) this event w = getFromNetwork env this event w"
  by (simp add: getFromNetwork_def fetchWrapper_fetch_def)

lemma handle_ignores_put_outcome:
  "handle (env\<lparr>put_outcome := q\<rparr>) this event w = handle env this event w"
  unfolding handle_def getFromNetwork_ignores_put_outcome
  by (simp add: cacheWrapper_match_def)

text \<open>Two requests served by one instance, evaluated.\<close>

lemma example_handle_all:
  "handle_all example_env
     \<lparr>inst_cacheName = ''assets'', inst_plugins = [''expiration'', ''broadcast'']\<rparr>
     [example_event ''/data.json'', example_event ''/styles/app.a1b2.css''] empty_world
   = (\<lparr>inst_cacheName = ''assets'', inst_plugins = [''expiration'', ''broadcast'']\<rparr>,
      \<lparr>calls =
         [MatchCall ''assets'' ''/data.json'' JSNull [''expiration'', ''broadcast''],
          FetchCall ''/data.json'' JSNull [''expiration'', ''broadcast''],
          CloneCall 0,
          PutCall ''assets'' ''/data.json'' 1 [''expiration'', ''broadcast''] 0,
          WaitUntilCall 0,
          MatchCall ''assets'' ''/styles/app.a1b2.css'' JSNull [''expiration'', ''broadcast'']],
       heap = [\<lparr>content = \<lparr>status = 200, body = ''[1]''\<rparr>, bodyUsed = False\<rparr>,
               \<lparr>content = \<lparr>status = 200, body = ''[1]''\<rparr>, bodyUsed = False\<rparr>,
               \<lparr>content = \<lparr>status = 200, body = ''a{}''\<rparr>, bodyUsed = False\<rparr>],
       promises = [Pending], extendLifetime = [0]\<rparr>)"
  by (simp add: example_defs handle_def getFromNetwork_def collaborator_defs Let_def)

section \<open>The claims\<close>

text \<open>
  C1. For every request for which the store match (\<^verbatim>\<open>cacheWrapper.match\<close> with the
  instance's cache name and plugin list) returns a response, \<open>handle\<close> returns exactly
  that response object, and the world it leaves is the one the match left: the match is
  the only call, so the network facade is not invoked and no put occurs.
\<close>

theorem hit_returns_stored_response:
  assumes "cacheWrapper_match env (inst_cacheName this) (request event) JSNull
             (inst_plugins this) w = (Fulfilled (Some r), w1)"
  shows "handle env this event w = (Fulfilled (Some r), this, w1)
       \<and> handle_calls env this event w =
           [MatchCall (inst_cacheName this) (request event) JSNull (inst_plugins this)]
       \<and> filter is_fetch (handle_calls env this event w) = []
       \<and> filter is_put (handle_calls env this event w) = []"
proof -
  from assms obtain p where
    hit: "match_outcome env (inst_cacheName this) (request event) JSNull (inst_plugins this)
            = Fulfilled (Some p)"
    by (auto simp: cacheWrapper_match_def Let_def new_Response_def
             split: settled.splits option.splits)
  from assms hit have "handle env this event w = (Fulfilled (Some r), this, w1)"
    by (simp add: handle_def)
  moreover have "handle_calls env this event w =
           [MatchCall (inst_cacheName this) (request event) JSNull (inst_plugins this)]"
    by (simp add: handle_projections handle_hit [OF hit])
  ultimately show ?thesis by simp
qed

theorem hit_returns_stored_response_witness:
  "handle example_env example_instance (example_event ''/styles/app.a1b2.css'') empty_world
     = (Fulfilled (Some 0), example_instance,
        \<lparr>calls = [MatchCall ''workbox-runtime'' ''/styles/app.a1b2.css'' JSNull
                     [''expiration'', ''broadcast'']],
         heap = [\<lparr>content = \<lparr>status = 200, body = ''a{}''\<rparr>, bodyUsed = False\<rparr>],
         promises = [], extendLifetime = []\<rparr>)
   \<and> filter is_fetch (handle_calls example_env example_instance
         (example_event ''/styles/app.a1b2.css'') empty_world) = []
   \<and> filter is_put (handle_calls example_env example_instance
         (example_event ''/styles/app.a1b2.css'') empty_world) = []"
proof -
  have "cacheWrapper_match example_env (inst_cacheName example_instance)
          (request (example_event ''/styles/app.a1b2.css'')) JSNull
          (inst_plugins example_instance) empty_world
        = (Fulfilled (Some 0),
           \<lparr>calls = [MatchCall ''workbox-runtime'' ''/styles/app.a1b2.css'' JSNull
                        [''expiration'', ''broadcast'']],
            heap = [\<lparr>content = \<lparr>status = 200, body = ''a{}''\<rparr>, bodyUsed = False\<rparr>],
            promises = [], extendLifetime = []\<rparr>)"
    by (simp add: example_defs collaborator_defs)
  from hit_returns_stored_response [OF this] show ?thesis by simp
qed

text \<open>
  C2. For every request for which the store match returns no response and the fetch
  succeeds, \<open>handle\<close> returns a response with the fetched content; exactly one fetch and
  exactly one put are made, the put with the store identifier the instance holds since
  its construction, the request, the instance's plugins, and a response whose body equals
  the body of the returned one. And for every request whatsoever, one \<open>handle\<close> makes at
  most one fetch and at most one put.
\<close>

theorem miss_then_fetch_one_put:
  "(match_outcome env (inst_cacheName this) (request event) JSNull (inst_plugins this)
      = Fulfilled None
    \<and> fetch_outcome env (request event) JSNull (inst_plugins this) = Fulfilled p
    \<longrightarrow> (\<exists>r c pr.
          handle_result env this event w = Fulfilled (Some r)
        \<and> r < length (heap (handle_world env this event w))
        \<and> content (heap (handle_world env this event w) ! r) = p
        \<and> filter is_fetch (handle_calls env this event w)
            = [FetchCall (request event) JSNull (inst_plugins this)]
        \<and> filter is_put (handle_calls env this event w)
            = [PutCall (inst_cacheName this) (request event) c (inst_plugins this) pr]
        \<and> c < length (heap (handle_world env this event w))
        \<and> body (content (heap (handle_world env this event w) ! c))
            = body (content (heap (handle_world env this event w) ! r))))
   \<and> length (filter is_fetch (handle_calls env this event w)) \<le> 1
   \<and> length (filter is_put (handle_calls env this event w)) \<le> 1"
proof -
  have bound: "length (filter is_fetch (handle_calls env this event w)) \<le> 1
             \<and> length (filter is_put (handle_calls env this event w)) \<le> 1"
    by (cases rule: handle_calls_cases [of env this event w]) simp_all
  have path: "\<exists>r c pr.
          handle_result env this event w = Fulfilled (Some r)
        \<and> r < length (heap (handle_world env this event w))
        \<and> content (heap (handle_world env this event w) ! r) = p
        \<and> filter is_fetch (handle_calls env this event w)
            = [FetchCall (request event) JSNull (inst_plugins this)]
        \<and> filter is_put (handle_calls env this event w)
            = [PutCall (inst_cacheName this) (request event) c (inst_plugins this) pr]
        \<and> c < length (heap (handle_world env this event w))
        \<and> body (content (heap (handle_world env this event w) ! c))
            = body (content (heap (handle_world env this event w) ! r))"
    if miss: "match_outcome env (inst_cacheName this) (request event) JSNull (inst_plugins this)
                = Fulfilled None"
    and ok: "fetch_outcome env (request event) JSNull (inst_plugins this) = Fulfilled p"
  proof (intro exI conjI)
    show "handle_result env this event w = Fulfilled (Some (length (heap w)))"
      by (simp add: handle_projections handle_miss_fetch_fulfilled [OF miss ok])
    show "filter is_put (handle_calls env this event w)
            = [PutCall (inst_cacheName this) (request event) (Suc (length (heap w)))
                 (inst_plugins this) (length (promises w))]"
      by (simp add: handle_projections handle_miss_fetch_fulfilled [OF miss ok])
  qed (simp_all add: handle_projections handle_miss_fetch_fulfilled [OF miss ok] nth_append)
  from bound path show ?thesis by blast
qed

theorem miss_then_fetch_one_put_witness:
  "\<exists>r c pr.
      handle_result example_env constructed_instance (example_event ''/data.json'') empty_world
        = Fulfilled (Some r)
    \<and> content (heap (handle_world example_env constructed_instance
                       (example_event ''/data.json'') empty_world) ! r)
        = \<lparr>status = 200, body = ''[1]''\<rparr>
    \<and> filter is_put (handle_calls example_env constructed_instance
                       (example_event ''/data.json'') empty_world)
        = [PutCall ''assets'' ''/data.json'' c [''expiration'', ''broadcast''] pr]
    \<and> body (content (heap (handle_world example_env constructed_instance
                       (example_event ''/data.json'') empty_world) ! c)) = ''[1]''"
proof -
  have inst: "constructed_instance
                = \<lparr>inst_cacheName = ''assets'', inst_plugins = [''expiration'', ''broadcast'']\<rparr>"
    by (simp add: constructed_instance_def CacheFirst_constructor_def
                  cacheNames_getRuntimeName_def example_env_def)
  have miss: "match_outcome example_env (inst_cacheName constructed_instance)
                (request (example_event ''/data.json'')) JSNull
                (inst_plugins constructed_instance) = Fulfilled None"
    by (simp add: example_defs)
  have ok: "fetch_outcome example_env (request (example_event ''/data.json'')) JSNull
                (inst_plugins constructed_instance) = Fulfilled \<lparr>status = 200, body = ''[1]''\<rparr>"
    by (simp add: example_defs)
  from miss_then_fetch_one_put [of example_env constructed_instance
         "example_event ''/data.json''" "\<lparr>status = 200, body = ''[1]''\<rparr>" empty_world] miss ok
  obtain r c pr where
      "handle_result example_env constructed_instance (example_event ''/data.json'') empty_world
        = Fulfilled (Some r)"
      "content (heap (handle_world example_env constructed_instance
                       (example_event ''/data.json'') empty_world) ! r)
        = \<lparr>status = 200, body = ''[1]''\<rparr>"
      "filter is_put (handle_calls example_env constructed_instance
                       (example_event ''/data.json'') empty_world)
        = [PutCall (inst_cacheName constructed_instance)
             (request (example_event ''/data.json'')) c (inst_plugins constructed_instance) pr]"
      "body (content (heap (handle_world example_env constructed_instance
                       (example_event ''/data.json'') empty_world) ! c))
        = body (content (heap (handle_world example_env constructed_instance
                       (example_event ''/data.json'') empty_world) ! r))"
    by blast
  then show ?thesis
    by (intro exI [of _ r] exI [of _ c] exI [of _ pr]) (simp add: inst example_event_def)
qed

text \<open>
  C3. The claim: whenever the store match returns no response and the fetch fails with
  \<open>e\<close>, \<open>handle\<close> fails with exactly \<open>e\<close>, and no put is made. The source rethrows only
  under \<^verbatim>\<open>if (error)\<close>: when the fetch is rejected with a falsy value, here
  \<^verbatim>\<open>undefined\<close>, \<open>handle\<close> does not fail but is fulfilled with the absent response.
\<close>

theorem falsy_fetch_rejection_is_swallowed:
  "match_outcome example_env (inst_cacheName example_instance)
     (request (example_event ''/rejects-with-undefined'')) JSNull (inst_plugins example_instance)
     = Fulfilled None
   \<and> fetch_outcome example_env (request (example_event ''/rejects-with-undefined'')) JSNull
       (inst_plugins example_instance) = Rejected JSUndefined
   \<and> handle_result example_env example_instance (example_event ''/rejects-with-undefined'')
       empty_world = Fulfilled None"
  by (simp add: example_defs handle_projections handle_def getFromNetwork_def collaborator_defs)

text \<open>
  C4. On every miss followed by a successful fetch, the fetched response is cloned exactly
  once, after the fetch and before the put; the clone succeeds, so the body was unread at
  that moment, and both objects are still unread when \<open>handle\<close> returns. The object
  returned to the caller and the object passed to the put are different objects: reading
  the body of either to completion leaves the other readable, with the fetched body.
\<close>

theorem fetched_response_duplicated_once:
  assumes miss: "match_outcome env (inst_cacheName this) (request event) JSNull (inst_plugins this)
             = Fulfilled None"
      and ok: "fetch_outcome env (request event) JSNull (inst_plugins this) = Fulfilled p"
  shows "\<exists>r c pr h.
           h = heap (handle_world env this event w)
         \<and> handle_calls env this event w =
             [MatchCall (inst_cacheName this) (request event) JSNull (inst_plugins this),
              FetchCall (request event) JSNull (inst_plugins this),
              CloneCall r,
              PutCall (inst_cacheName this) (request event) c (inst_plugins this) pr,
              WaitUntilCall pr]
         \<and> filter is_clone (handle_calls env this event w) = [CloneCall r]
         \<and> handle_result env this event w = Fulfilled (Some r)
         \<and> r \<noteq> c
         \<and> readable h r \<and> readable h c
         \<and> readable (snd (Response_text r h)) c
         \<and> fst (Response_text c (snd (Response_text r h))) = Inr (body p)
         \<and> readable (snd (Response_text c h)) r
         \<and> fst (Response_text r (snd (Response_text c h))) = Inr (body p)"
proof (intro exI conjI)
  show "heap (handle_world env this event w) = heap (handle_world env this event w)" ..
  show "handle_calls env this event w =
             [MatchCall (inst_cacheName this) (request event) JSNull (inst_plugins this),
              FetchCall (request event) JSNull (inst_plugins this),
              CloneCall (length (heap w)),
              PutCall (inst_cacheName this) (request event) (Suc (length (heap w)))
                (inst_plugins this) (length (promises w)),
              WaitUntilCall (length (promises w))]"
    by (simp add: handle_projections handle_miss_fetch_fulfilled [OF miss ok])
  show "handle_result env this event w = Fulfilled (Some (length (heap w)))"
    by (simp add: handle_projections handle_miss_fetch_fulfilled [OF miss ok])
qed (simp_all add: handle_projections handle_miss_fetch_fulfilled [OF miss ok]
       readable_def Response_text_def nth_append)

theorem fetched_response_duplicated_once_witness:
  "\<exists>h. h = heap (handle_world example_env example_instance (example_event ''/data.json'')
                  empty_world)
     \<and> filter is_clone (handle_calls example_env example_instance (example_event ''/data.json'')
                          empty_world) = [CloneCall 0]
     \<and> handle_result example_env example_instance (example_event ''/data.json'') empty_world
         = Fulfilled (Some 0)
     \<and> filter is_put (handle_calls example_env example_instance (example_event ''/data.json'')
                        empty_world)
         = [PutCall ''workbox-runtime'' ''/data.json'' 1 [''expiration'', ''broadcast''] 0]
     \<and> fst (Response_text 1 (snd (Response_text 0 h))) = Inr ''[1]''
     \<and> fst (Response_text 0 (snd (Response_text 1 h))) = Inr ''[1]''
     \<and> fst (Response_text 0 (snd (Response_text 0 h))) = Inl (JSError ''TypeError'')"
proof -
  have miss: "match_outcome example_env (inst_cacheName example_instance)
                (request (example_event ''/data.json'')) JSNull
                (inst_plugins example_instance) = Fulfilled None"
    by (simp add: example_defs)
  have ok: "fetch_outcome example_env (request (example_event ''/data.json'')) JSNull
                (inst_plugins example_instance) = Fulfilled \<lparr>status = 200, body = ''[1]''\<rparr>"
    by (simp add: example_defs)
  from fetched_response_duplicated_once [OF miss ok, of empty_world]
  obtain r c pr h where
      h: "h = heap (handle_world example_env example_instance (example_event ''/data.json'')
                  empty_world)"
     and cs: "handle_calls example_env example_instance (example_event ''/data.json'') empty_world =
             [MatchCall (inst_cacheName example_instance) (request (example_event ''/data.json''))
                JSNull (inst_plugins example_instance),
              FetchCall (request (example_event ''/data.json'')) JSNull
                (inst_plugins example_instance),
              CloneCall r,
              PutCall (inst_cacheName example_instance) (request (example_event ''/data.json''))
                c (inst_plugins example_instance) pr,
              WaitUntilCall pr]"
     and res: "handle_result example_env example_instance (example_event ''/data.json'')
                 empty_world = Fulfilled (Some r)"
     and rd: "fst (Response_text c (snd (Response_text r h)))
                = Inr (body \<lparr>status = 200, body = ''[1]''\<rparr>)"
             "fst (Response_text r (snd (Response_text c h)))
                = Inr (body \<lparr>status = 200, body = ''[1]''\<rparr>)"
    by blast
  have r0: "handle_result example_env example_instance (example_event ''/data.json'') empty_world
         = Fulfilled (Some 0)"
    by (simp add: example_defs handle_projections handle_def getFromNetwork_def
                  collaborator_defs Let_def)
  have c1: "handle_calls example_env example_instance (example_event ''/data.json'') empty_world
         = [MatchCall ''workbox-runtime'' ''/data.json'' JSNull [''expiration'', ''broadcast''],
            FetchCall ''/data.json'' JSNull [''expiration'', ''broadcast''],
            CloneCall 0,
            PutCall ''workbox-runtime'' ''/data.json'' 1 [''expiration'', ''broadcast''] 0,
            WaitUntilCall 0]"
    by (simp add: example_defs handle_projections handle_def getFromNetwork_def
                  collaborator_defs Let_def)
  from res r0 have r: "r = 0" by simp
  from cs c1 have c: "c = 1" by simp
  have twice: "fst (Response_text 0 (snd (Response_text 0 h))) = Inl (JSError ''TypeError'')"
    by (simp add: Response_text_def readable_def)
  from h c1 r0 rd twice show ?thesis unfolding r c by simp
qed

text \<open>
  C5. On every miss followed by a successful fetch, \<open>handle\<close> is fulfilled while the
  promise of the put is still pending, and that promise is the one registered with
  \<^verbatim>\<open>event.waitUntil\<close>. The promise leaves the pending state only in the later completion
  step of the surroundings, and what \<open>handle\<close> returns and leaves behind is the same
  however the write ends, and also when it never ends.
\<close>

theorem put_registered_not_awaited:
  assumes miss: "match_outcome env (inst_cacheName this) (request event) JSNull (inst_plugins this)
             = Fulfilled None"
      and ok: "fetch_outcome env (request event) JSNull (inst_plugins this) = Fulfilled p"
  shows "\<exists>r c pr.
           handle_result env this event w = Fulfilled (Some r)
         \<and> drop 3 (handle_calls env this event w) =
             [PutCall (inst_cacheName this) (request event) c (inst_plugins this) pr,
              WaitUntilCall pr]
         \<and> pr < length (promises (handle_world env this event w))
         \<and> promises (handle_world env this event w) ! pr = Pending
         \<and> extendLifetime (handle_world env this event w) = extendLifetime w @ [pr]
         \<and> promises (complete_put env
               (PutCall (inst_cacheName this) (request event) c (inst_plugins this) pr)
               (handle_world env this event w)) ! pr
             = (case put_outcome env (inst_cacheName this) (request event) (inst_plugins this) of
                  None \<Rightarrow> Pending | Some outcome \<Rightarrow> Settled outcome)
         \<and> (\<forall>q. handle (env\<lparr>put_outcome := q\<rparr>) this event w = handle env this event w)"
proof (intro exI conjI)
  show "\<forall>q. handle (env\<lparr>put_outcome := q\<rparr>) this event w = handle env this event w"
    by (simp add: handle_ignores_put_outcome)
  show "handle_result env this event w = Fulfilled (Some (length (heap w)))"
    by (simp add: handle_projections handle_miss_fetch_fulfilled [OF miss ok])
  show "drop 3 (handle_calls env this event w) =
             [PutCall (inst_cacheName this) (request event) (Suc (length (heap w)))
                (inst_plugins this) (length (promises w)),
              WaitUntilCall (length (promises w))]"
    by (simp add: handle_projections handle_miss_fetch_fulfilled [OF miss ok])
qed (simp_all add: handle_projections handle_miss_fetch_fulfilled [OF miss ok]
       split: option.splits)

theorem put_registered_not_awaited_witness:
  "handle_result example_env example_instance (example_event ''/data.json'') empty_world
     = Fulfilled (Some 0)
   \<and> promises (handle_world example_env example_instance (example_event ''/data.json'')
                empty_world) = [Pending]
   \<and> extendLifetime (handle_world example_env example_instance (example_event ''/data.json'')
                empty_world) = [0]
   \<and> promises (complete_put example_env
         (PutCall ''workbox-runtime'' ''/data.json'' 1 [''expiration'', ''broadcast''] 0)
         (handle_world example_env example_instance (example_event ''/data.json'') empty_world))
       = [Settled (Rejected (JSError ''QuotaExceededError''))]"
proof -
  have miss: "match_outcome example_env (inst_cacheName example_instance)
                (request (example_event ''/data.json'')) JSNull
                (inst_plugins example_instance) = Fulfilled None"
    by (simp add: example_defs)
  have ok: "fetch_outcome example_env (request (example_event ''/data.json'')) JSNull
                (inst_plugins example_instance) = Fulfilled \<lparr>status = 200, body = ''[1]''\<rparr>"
    by (simp add: example_defs)
  from put_registered_not_awaited [OF miss ok, of empty_world]
  obtain r c pr where
        "handle_result example_env example_instance (example_event ''/data.json'') empty_world
           = Fulfilled (Some r)"
    and reg: "extendLifetime (handle_world example_env example_instance
                (example_event ''/data.json'') empty_world) = extendLifetime empty_world @ [pr]"
    and pend: "promises (handle_world example_env example_instance
                (example_event ''/data.json'') empty_world) ! pr = Pending"
    by blast
  have w: "handle_world example_env example_instance (example_event ''/data.json'') empty_world
         = \<lparr>calls =
              [MatchCall ''workbox-runtime'' ''/data.json'' JSNull [''expiration'', ''broadcast''],
               FetchCall ''/data.json'' JSNull [''expiration'', ''broadcast''],
               CloneCall 0,
               PutCall ''workbox-runtime'' ''/data.json'' 1 [''expiration'', ''broadcast''] 0,
               WaitUntilCall 0],
             heap = [\<lparr>content = \<lparr>status = 200, body = ''[1]''\<rparr>, bodyUsed = False\<rparr>,
                     \<lparr>content = \<lparr>status = 200, body = ''[1]''\<rparr>, bodyUsed = False\<rparr>],
             promises = [Pending], extendLifetime = [0]\<rparr>"
    by (simp add: example_defs handle_projections handle_def getFromNetwork_def
                  collaborator_defs Let_def)
  have res: "handle_result example_env example_instance (example_event ''/data.json'')
               empty_world = Fulfilled (Some 0)"
    by (simp add: example_defs handle_projections handle_def getFromNetwork_def
                  collaborator_defs Let_def)
  from reg pend res show ?thesis unfolding w by (simp add: example_env_def)
qed

text \<open>
  C6. In every \<open>handle\<close>, every call that takes a plugin list (the store match, the
  fetch, the put) is passed the list held by the instance, which is the list given at
  construction, in the order given; on the path through all three the same list appears
  at each of them.
\<close>

theorem same_plugins_at_every_call:
  "(\<forall>c \<in> set (handle_calls env this event w).
       \<forall>ps. call_plugins c = Some ps \<longrightarrow> ps = inst_plugins this)
   \<and> inst_plugins (fst (CacheFirst_constructor env
        (Some \<lparr>cacheName = name, plugins = Some given\<rparr>) w0)) = given
   \<and> (match_outcome env (inst_cacheName this) (request event) JSNull (inst_plugins this)
        = Fulfilled None
      \<and> fetch_outcome env (request event) JSNull (inst_plugins this) = Fulfilled p
      \<longrightarrow> map call_plugins (handle_calls env this event w)
            = [Some (inst_plugins this), Some (inst_plugins this), None,
               Some (inst_plugins this), None])"
proof (intro conjI impI)
  show "\<forall>c \<in> set (handle_calls env this event w).
       \<forall>ps. call_plugins c = Some ps \<longrightarrow> ps = inst_plugins this"
    using handle_calls_carry_instance [of _ env this event w] by blast
  show "inst_plugins (fst (CacheFirst_constructor env
        (Some \<lparr>cacheName = name, plugins = Some given\<rparr>) w0)) = given"
    by (simp add: CacheFirst_constructor_def cacheNames_getRuntimeName_def)
next
  assume "match_outcome env (inst_cacheName this) (request event) JSNull (inst_plugins this)
        = Fulfilled None
      \<and> fetch_outcome env (request event) JSNull (inst_plugins this) = Fulfilled p"
  then show "map call_plugins (handle_calls env this event w)
            = [Some (inst_plugins this), Some (inst_plugins this), None,
               Some (inst_plugins this), None]"
    by (simp add: handle_projections handle_miss_fetch_fulfilled)
qed

theorem same_plugins_at_every_call_witness:
  "inst_plugins constructed_instance = [''expiration'', ''broadcast'']
   \<and> map call_plugins (handle_calls example_env constructed_instance
                          (example_event ''/data.json'') empty_world)
       = [Some [''expiration'', ''broadcast''], Some [''expiration'', ''broadcast''], None,
          Some [''expiration'', ''broadcast''], None]"
proof -
  have miss: "match_outcome example_env (inst_cacheName constructed_instance)
                (request (example_event ''/data.json'')) JSNull
                (inst_plugins constructed_instance) = Fulfilled None"
    by (simp add: example_defs)
  have ok: "fetch_outcome example_env (request (example_event ''/data.json'')) JSNull
                (inst_plugins constructed_instance) = Fulfilled \<lparr>status = 200, body = ''[1]''\<rparr>"
    by (simp add: example_defs)
  from same_plugins_at_every_call [of example_env constructed_instance
         "example_event ''/data.json''" empty_world "Some ''assets''"
         "[''expiration'', ''broadcast'']" empty_world "\<lparr>status = 200, body = ''[1]''\<rparr>"]
       miss ok
  show ?thesis by (simp add: constructed_instance_def)
qed

text \<open>
  C7. The constructor calls \<^verbatim>\<open>getRuntimeName\<close> exactly once and stores its result; a
  \<open>handle\<close> never calls it and returns the instance with its fields unchanged. So after
  any number of requests the instance is the same, and every call made for any of them
  carries the same store identifier and the same plugin list.
\<close>

theorem store_identifier_resolved_once:
  "calls_since w0 (snd (CacheFirst_constructor env options_arg w0))
     = [GetRuntimeNameCall (case options_arg of None \<Rightarrow> None | Some given \<Rightarrow> cacheName given)]
   \<and> inst_cacheName (fst (CacheFirst_constructor env options_arg w0))
     = runtimeName env (case options_arg of None \<Rightarrow> None | Some given \<Rightarrow> cacheName given)
   \<and> handle_instance env this event w = this
   \<and> filter is_getRuntimeName (handle_calls env this event w) = []
   \<and> fst (handle_all env this events w) = this
   \<and> (\<forall>c \<in> set (calls_since w (snd (handle_all env this events w))).
         \<not> is_getRuntimeName c
       \<and> (\<forall>n. call_cacheName c = Some n \<longrightarrow> n = inst_cacheName this)
       \<and> (\<forall>ps. call_plugins c = Some ps \<longrightarrow> ps = inst_plugins this))"
proof (intro conjI)
  show "calls_since w0 (snd (CacheFirst_constructor env options_arg w0))
     = [GetRuntimeNameCall (case options_arg of None \<Rightarrow> None | Some given \<Rightarrow> cacheName given)]"
    by (cases options_arg)
       (simp_all add: CacheFirst_constructor_def cacheNames_getRuntimeName_def record_call_def
                      calls_since_def)
  show "inst_cacheName (fst (CacheFirst_constructor env options_arg w0))
     = runtimeName env (case options_arg of None \<Rightarrow> None | Some given \<Rightarrow> cacheName given)"
    by (cases options_arg)
       (simp_all add: CacheFirst_constructor_def cacheNames_getRuntimeName_def)
  show "handle_instance env this event w = this"
    by (rule handle_keeps_instance)
  show "filter is_getRuntimeName (handle_calls env this event w) = []"
    by (cases rule: handle_calls_cases [of env this event w]) simp_all
  show "fst (handle_all env this events w) = this"
    by (rule handle_all_keeps_instance)
  from handle_all_calls [of env this events w] obtain cs where
    cs: "calls (snd (handle_all env this events w)) = calls w @ cs"
        "\<forall>c \<in> set cs. (\<forall>n. call_cacheName c = Some n \<longrightarrow> n = inst_cacheName this)
                      \<and> (\<forall>ps. call_plugins c = Some ps \<longrightarrow> ps = inst_plugins this)
                      \<and> \<not> is_getRuntimeName c"
    by blast
  from cs(1) have "calls_since w (snd (handle_all env this events w)) = cs"
    by (simp add: calls_since_def)
  with cs(2) show "\<forall>c \<in> set (calls_since w (snd (handle_all env this events w))).
         \<not> is_getRuntimeName c
       \<and> (\<forall>n. call_cacheName c = Some n \<longrightarrow> n = inst_cacheName this)
       \<and> (\<forall>ps. call_plugins c = Some ps \<longrightarrow> ps = inst_plugins this)"
    by simp
qed

theorem store_identifier_resolved_once_witness:
  "calls_since empty_world (snd (CacheFirst_constructor example_env
       (Some \<lparr>cacheName = Some ''assets'', plugins = Some [''expiration'', ''broadcast'']\<rparr>)
       empty_world))
     = [GetRuntimeNameCall (Some ''assets'')]
   \<and> inst_cacheName constructed_instance = ''assets''
   \<and> fst (handle_all example_env constructed_instance
            [example_event ''/data.json'', example_event ''/styles/app.a1b2.css''] empty_world)
       = constructed_instance
   \<and> map call_cacheName (calls_since empty_world (snd (handle_all example_env
            constructed_instance
            [example_event ''/data.json'', example_event ''/styles/app.a1b2.css''] empty_world)))
       = [Some ''assets'', None, None, Some ''assets'', None, Some ''assets'']"
proof -
  have inst: "constructed_instance
                = \<lparr>inst_cacheName = ''assets'', inst_plugins = [''expiration'', ''broadcast'']\<rparr>"
    by (simp add: constructed_instance_def CacheFirst_constructor_def
                  cacheNames_getRuntimeName_def example_env_def)
  have names: "map call_cacheName (calls_since empty_world (snd (handle_all example_env
            constructed_instance
            [example_event ''/data.json'', example_event ''/styles/app.a1b2.css''] empty_world)))
       = [Some ''assets'', None, None, Some ''assets'', None, Some ''assets'']"
    unfolding inst example_handle_all by (simp add: calls_since_def empty_world_def)
  from store_identifier_resolved_once [of empty_world example_env
         "Some \<lparr>cacheName = Some ''assets'', plugins = Some [''expiration'', ''broadcast'']\<rparr>"
         constructed_instance "example_event ''/data.json''" empty_world
         "[example_event ''/data.json'', example_event ''/styles/app.a1b2.css'']"]
       names
  show ?thesis
    by (simp add: inst example_env_def)
qed

text \<open>
  C8. Construction takes an optional options object with an optional store name and an
  optional plugin list. Without options, or with an empty options object, the instance
  holds the name \<^verbatim>\<open>getRuntimeName\<close> gives for the absent name and the empty plugin list;
  a name or a plugin list that is given is used.
\<close>

theorem constructor_defaults:
  "fst (CacheFirst_constructor env None w)
     = \<lparr>inst_cacheName = runtimeName env None, inst_plugins = []\<rparr>
   \<and> fst (CacheFirst_constructor env (Some \<lparr>cacheName = None, plugins = None\<rparr>) w)
     = \<lparr>inst_cacheName = runtimeName env None, inst_plugins = []\<rparr>
   \<and> fst (CacheFirst_constructor env (Some \<lparr>cacheName = Some n, plugins = None\<rparr>) w)
     = \<lparr>inst_cacheName = runtimeName env (Some n), inst_plugins = []\<rparr>
   \<and> fst (CacheFirst_constructor env (Some \<lparr>cacheName = None, plugins = Some ps\<rparr>) w)
     = \<lparr>inst_cacheName = runtimeName env None, inst_plugins = ps\<rparr>
   \<and> fst (CacheFirst_constructor env (Some \<lparr>cacheName = Some n, plugins = Some ps\<rparr>) w)
     = \<lparr>inst_cacheName = runtimeName env (Some n), inst_plugins = ps\<rparr>"
  by (simp add: CacheFirst_constructor_def cacheNames_getRuntimeName_def)

text \<open>
  C9. For every request for which the store match itself fails, \<open>handle\<close> fails with the
  same value, whatever it is, and the match is the only call made: neither the fetch nor
  a put is invoked.
\<close>

theorem match_failure_propagates:
  assumes "match_outcome env (inst_cacheName this) (request event) JSNull (inst_plugins this)
             = Rejected e"
  shows "handle_result env this event w = Rejected e
       \<and> handle_calls env this event w =
           [MatchCall (inst_cacheName this) (request event) JSNull (inst_plugins this)]
       \<and> filter is_fetch (handle_calls env this event w) = []
       \<and> filter is_put (handle_calls env this event w) = []"
  by (simp add: handle_projections handle_match_rejected [OF assms])

theorem match_failure_propagates_witness:
  "handle_result example_env example_instance (example_event ''/broken-store'') empty_world
     = Rejected (JSError ''InvalidStateError'')
   \<and> handle_calls example_env example_instance (example_event ''/broken-store'') empty_world
     = [MatchCall ''workbox-runtime'' ''/broken-store'' JSNull [''expiration'', ''broadcast'']]"
proof -
  have "match_outcome example_env (inst_cacheName example_instance)
          (request (example_event ''/broken-store'')) JSNull (inst_plugins example_instance)
        = Rejected (JSError ''InvalidStateError'')"
    by (simp add: example_defs)
  from match_failure_propagates [OF this, of empty_world] show ?thesis
    by (simp add: example_defs)
qed

text \<open>
  C10. On every miss followed by a successful fetch, the response \<open>handle\<close> returns is
  the very object the fetch produced, and the object passed to the put is the one the
  clone of it produced, a different object.
\<close>

theorem caller_gets_original_put_gets_clone:
  assumes miss: "match_outcome env (inst_cacheName this) (request event) JSNull (inst_plugins this)
             = Fulfilled None"
      and ok: "fetch_outcome env (request event) JSNull (inst_plugins this) = Fulfilled p"
  shows "\<exists>w1 r w2 c w3 pr.
           cacheWrapper_match env (inst_cacheName this) (request event) JSNull
             (inst_plugins this) w = (Fulfilled None, w1)
         \<and> fetchWrapper_fetch env (request event) JSNull (inst_plugins this) w1
             = (Fulfilled r, w2)
         \<and> Response_clone r w2 = (Inr c, w3)
         \<and> handle_result env this event w = Fulfilled (Some r)
         \<and> filter is_put (handle_calls env this event w)
             = [PutCall (inst_cacheName this) (request event) c (inst_plugins this) pr]
         \<and> c \<noteq> r"
proof -
  let ?w1 = "record_call (MatchCall (inst_cacheName this) (request event) JSNull
                            (inst_plugins this)) w"
  have m: "cacheWrapper_match env (inst_cacheName this) (request event) JSNull
             (inst_plugins this) w = (Fulfilled None, ?w1)"
    using miss by (simp add: cacheWrapper_match_def)
  obtain w2 where f: "fetchWrapper_fetch env (request event) JSNull (inst_plugins this) ?w1
             = (Fulfilled (length (heap w)), w2)"
    using ok by (simp add: fetchWrapper_fetch_def new_Response_def record_call_def)
  from f ok have h2: "heap w2 = heap w @ [\<lparr>content = p, bodyUsed = False\<rparr>]"
    by (auto simp: fetchWrapper_fetch_def new_Response_def record_call_def)
  obtain w3 where c: "Response_clone (length (heap w)) w2 = (Inr (Suc (length (heap w))), w3)"
    using h2 by (simp add: Response_clone_def record_call_def Let_def)
  have res: "handle_result env this event w = Fulfilled (Some (length (heap w)))"
    by (simp add: handle_projections handle_miss_fetch_fulfilled [OF miss ok])
  have put: "filter is_put (handle_calls env this event w)
             = [PutCall (inst_cacheName this) (request event) (Suc (length (heap w)))
                  (inst_plugins this) (length (promises w))]"
    by (simp add: handle_projections handle_miss_fetch_fulfilled [OF miss ok])
  from m f c res put show ?thesis by force
qed

theorem caller_gets_original_put_gets_clone_witness:
  "fst (fetchWrapper_fetch example_env ''/data.json'' JSNull [''expiration'', ''broadcast'']
          (snd (cacheWrapper_match example_env ''workbox-runtime'' ''/data.json'' JSNull
                  [''expiration'', ''broadcast''] empty_world)))
     = Fulfilled 0
   \<and> handle_result example_env example_instance (example_event ''/data.json'') empty_world
       = Fulfilled (Some 0)
   \<and> filter is_put (handle_calls example_env example_instance (example_event ''/data.json'')
                      empty_world)
       = [PutCall ''workbox-runtime'' ''/data.json'' 1 [''expiration'', ''broadcast''] 0]"
proof -
  have miss: "match_outcome example_env (inst_cacheName example_instance)
                (request (example_event ''/data.json'')) JSNull
                (inst_plugins example_instance) = Fulfilled None"
    by (simp add: example_defs)
  have ok: "fetch_outcome example_env (request (example_event ''/data.json'')) JSNull
                (inst_plugins example_instance) = Fulfilled \<lparr>status = 200, body = ''[1]''\<rparr>"
    by (simp add: example_defs)
  from caller_gets_original_put_gets_clone [OF miss ok, of empty_world]
  obtain w1 r w2 c w3 pr where
        m: "cacheWrapper_match example_env (inst_cacheName example_instance)
              (request (example_event ''/data.json'')) JSNull (inst_plugins example_instance)
              empty_world = (Fulfilled None, w1)"
    and f: "fetchWrapper_fetch example_env (request (example_event ''/data.json'')) JSNull
              (inst_plugins example_instance) w1 = (Fulfilled r, w2)"
    and cl: "Response_clone r w2 = (Inr c, w3)"
    and res: "handle_result example_env example_instance (example_event ''/data.json'')
                empty_world = Fulfilled (Some r)"
    and put: "filter is_put (handle_calls example_env example_instance
                (example_event ''/data.json'') empty_world)
              = [PutCall (inst_cacheName example_instance)
                   (request (example_event ''/data.json'')) c
                   (inst_plugins example_instance) pr]"
    by blast
  have r0: "handle_result example_env example_instance (example_event ''/data.json'')
              empty_world = Fulfilled (Some 0)"
    by (simp add: example_defs handle_projections handle_def getFromNetwork_def
                  collaborator_defs Let_def)
  with res have r: "r = 0" by simp
  have p1: "filter is_put (handle_calls example_env example_instance
              (example_event ''/data.json'') empty_world)
            = [PutCall ''workbox-runtime'' ''/data.json'' 1 [''expiration'', ''broadcast''] 0]"
    by (simp add: example_defs handle_projections handle_def getFromNetwork_def
                  collaborator_defs Let_def)
  from m f r have "fst (fetchWrapper_fetch example_env ''/data.json'' JSNull
          [''expiration'', ''broadcast'']
          (snd (cacheWrapper_match example_env ''workbox-runtime'' ''/data.json'' JSNull
                  [''expiration'', ''broadcast''] empty_world))) = Fulfilled 0"
    by (simp add: example_instance_def example_event_def)
  with r0 p1 show ?thesis by simp
qed

end
